theory Spec2Isabelle
  imports Main
begin

section \<open>Strings and promises\<close>

text \<open>
  Strings are byte lists holding the UTF-8 encoding of the JavaScript string, so a code
  point above U+007F takes several bytes.  The only string operations the page uses are
  concatenation, the truthiness test (a string is falsy exactly when it is empty) and
  \<^verbatim>\<open>String.prototype.trim\<close>.
\<close>

text \<open>
  The code points that \<^verbatim>\<open>trim\<close> strips (ECMAScript WhiteSpace and LineTerminator):
  U+0009 to U+000D, U+0020, U+00A0, U+1680, U+2000 to U+200A, U+2028, U+2029, U+202F,
  U+205F, U+3000 and U+FEFF, each in its UTF-8 encoding.
\<close>

definition js_white_space :: "string list" where
  "js_white_space =
     [[CHR 0x09], [CHR 0x0A], [CHR 0x0B], [CHR 0x0C], [CHR 0x0D], [CHR 0x20],
      [CHR 0xC2, CHR 0xA0],
      [CHR 0xE1, CHR 0x9A, CHR 0x80],
      [CHR 0xE2, CHR 0x80, CHR 0x80], [CHR 0xE2, CHR 0x80, CHR 0x81],
      [CHR 0xE2, CHR 0x80, CHR 0x82], [CHR 0xE2, CHR 0x80, CHR 0x83],
      [CHR 0xE2, CHR 0x80, CHR 0x84], [CHR 0xE2, CHR 0x80, CHR 0x85],
      [CHR 0xE2, CHR 0x80, CHR 0x86], [CHR 0xE2, CHR 0x80, CHR 0x87],
      [CHR 0xE2, CHR 0x80, CHR 0x88], [CHR 0xE2, CHR 0x80, CHR 0x89],
      [CHR 0xE2, CHR 0x80, CHR 0x8A],
      [CHR 0xE2, CHR 0x80, CHR 0xA8], [CHR 0xE2, CHR 0x80, CHR 0xA9],
      [CHR 0xE2, CHR 0x80, CHR 0xAF],
      [CHR 0xE2, CHR 0x81, CHR 0x9F],
      [CHR 0xE3, CHR 0x80, CHR 0x80],
      [CHR 0xEF, CHR 0xBB, CHR 0xBF]]"

text \<open>The length of the first pattern that the string starts with, 0 when none does.\<close>

definition match_len :: "string list \<Rightarrow> string \<Rightarrow> nat" where
  "match_len pats s =
     (case filter (\<lambda>p. take (length p) s = p) pats of
        [] \<Rightarrow> 0
      | p # _ \<Rightarrow> length p)"

lemma match_len_le: "match_len pats s \<le> length s"
proof (cases "filter (\<lambda>p. take (length p) s = p) pats")
  case Nil
  then show ?thesis by (simp add: match_len_def)
next
  case (Cons p ps)
  then have "p \<in> set (filter (\<lambda>p. take (length p) s = p) pats)" by simp
  then have "take (length p) s = p" by simp
  then have "length p = min (length s) (length p)" by (metis length_take)
  with Cons show ?thesis by (simp add: match_len_def)
qed

function strip :: "string list \<Rightarrow> string \<Rightarrow> string" where
  "strip pats s =
     (case match_len pats s of
        0 \<Rightarrow> s
      | Suc n \<Rightarrow> strip pats (drop (Suc n) s))"
  by pat_completeness auto
termination
proof (relation "measure (\<lambda>(pats, s). length s)")
  show "wf (measure (\<lambda>(pats, s). length s))" by simp
next
  fix pats :: "string list" and s :: string and n :: nat
  assume m: "match_len pats s = Suc n"
  have "match_len pats s \<le> length s" by (rule match_len_le)
  with m have "Suc n \<le> length s" by simp
  then show "((pats, drop (Suc n) s), (pats, s)) \<in> measure (\<lambda>(pats, s). length s)"
    by simp
qed

declare strip.simps [simp del]

lemma strip_none: "match_len pats s = 0 \<Longrightarrow> strip pats s = s"
  by (subst strip.simps) simp

lemma strip_some: "match_len pats s = Suc n \<Longrightarrow> strip pats s = strip pats (drop (Suc n) s)"
  by (subst strip.simps) simp

definition trimStart :: "string \<Rightarrow> string" where
  "trimStart s = strip js_white_space s"

definition trimEnd :: "string \<Rightarrow> string" where
  "trimEnd s = rev (strip (map rev js_white_space) (rev s))"

definition trim :: "string \<Rightarrow> string" where
  "trim s = trimEnd (trimStart s)"

text \<open>
  An awaited promise either rejects with an error, of which the page reads only
  \<^verbatim>\<open>error.message\<close>, or resolves with a value.  For
  \<^verbatim>\<open>await fetch(...)\<close> followed by \<^verbatim>\<open>await response.json()\<close> the rejection
  stands for a failure of either step: the request does not get through, or the body is
  not JSON.
\<close>

datatype 'a settled = Rejected string | Resolved 'a

section \<open>The page component \<^verbatim>\<open>Home\<close> (src/frontend/app/page.js)\<close>

subsection \<open>State\<close>

text \<open>The \<^verbatim>\<open>subject\<close> object of an analysis response: \<^verbatim>\<open>{subject, topic, level, concepts}\<close>.\<close>

record subject_record =
  subject_subject :: string
  subject_topic :: string
  subject_level :: string
  subject_concepts :: "string list"

text \<open>One entry of \<^verbatim>\<open>chatHistory\<close>: \<^verbatim>\<open>{role, content}\<close>.\<close>

record turn =
  role :: string
  content :: string

text \<open>
  The eight \<^verbatim>\<open>useState\<close> cells of the component.  \<open>None\<close> in \<open>subject\<close> is
  JavaScript's \<^verbatim>\<open>null\<close> (or \<^verbatim>\<open>undefined\<close>).
\<close>

record home_state =
  youtubeUrl :: string
  sessionId :: string
  subject :: "subject_record option"
  loading :: bool
  chatHistory :: "turn list"
  message :: string
  suggestions :: "string list"
  showSuggestions :: bool

definition initial_state :: home_state where
  "initial_state =
     \<lparr>youtubeUrl = [], sessionId = [], subject = None, loading = False, chatHistory = [],
      message = [], suggestions = [], showSuggestions = True\<rparr>"

subsection \<open>Responses, requests and effects\<close>

text \<open>
  The parsed JSON bodies, with the fields the page reads.  A field whose absence the
  page handles (\<^verbatim>\<open>data.suggested_questions || []\<close>, \<^verbatim>\<open>data.detail || '...'\<close>) or
  trips over (\<^verbatim>\<open>data.subject.subject\<close>) is optional; \<^verbatim>\<open>data.success\<close> is read for
  its truthiness only, so an absent flag is \<open>False\<close>.
\<close>

record analyze_data =
  analyze_success :: bool
  session_id :: string
  data_subject :: "subject_record option"
  suggested_questions :: "string list option"
  detail :: "string option"

record chat_data =
  chat_success :: bool
  response :: string

record suggest_data =
  suggest_success :: bool
  data_suggestions :: "string list"

text \<open>The JSON body of a POST request; every request is sent with the same headers.\<close>

datatype request_body =
  AnalyzeBody (req_url: string)
| ChatBody (req_session_id: string) (req_message: string) (req_screenshot: string)
| SuggestBody (req_session_id: string)
| CaptureBody (req_screenshot: string)

text \<open>
  What a handler does besides writing state, in the order it does it: the request it
  sends, the modal \<^verbatim>\<open>alert\<close> and \<^verbatim>\<open>confirm\<close> dialogs, and \<^verbatim>\<open>console.error\<close>.
\<close>

datatype effect =
  Fetch string request_body
| Alert string
| Confirm string
| ConsoleError string string

definition alerts :: "effect list \<Rightarrow> string list" where
  "alerts es = concat (map (\<lambda>e. case e of Alert m \<Rightarrow> [m] | _ \<Rightarrow> []) es)"

definition console_errors :: "effect list \<Rightarrow> (string \<times> string) list" where
  "console_errors es = concat (map (\<lambda>e. case e of ConsoleError p m \<Rightarrow> [(p, m)] | _ \<Rightarrow> []) es)"

definition requests :: "effect list \<Rightarrow> (string \<times> request_body) list" where
  "requests es = concat (map (\<lambda>e. case e of Fetch u b \<Rightarrow> [(u, b)] | _ \<Rightarrow> []) es)"

subsection \<open>analyzeContent\<close>

text \<open>U+1F680, the rocket that ends the welcome message.\<close>

definition rocket :: string where
  "rocket = [CHR 0xF0, CHR 0x9F, CHR 0x9A, CHR 0x80]"

definition welcome_message :: "subject_record \<Rightarrow> string" where
  "welcome_message s =
     ''Great! I've analyzed this '' @ subject_subject s @ '' tutorial about '' @
     [CHR 0x22] @ subject_topic s @ [CHR 0x22] @
     ''. I'm ready to help you learn! Ask me anything or use the suggestions below. '' @
     rocket"

text \<open>
  The message of the TypeError that \<^verbatim>\<open>data.subject.subject\<close> raises when a response
  flagged as successful has no \<^verbatim>\<open>subject\<close>.  Its wording is the engine's, not the
  language's; nothing below depends on it.
\<close>

definition type_error_message :: string where
  "type_error_message = ''Cannot read properties of undefined (reading 'subject')''"

text \<open>The statements before the \<^verbatim>\<open>try\<close> block, which run before the request is sent.\<close>

definition analyzeContent_begin :: "home_state \<Rightarrow> home_state" where
  "analyzeContent_begin st =
     st\<lparr>loading := True, chatHistory := [], suggestions := [], subject := None\<rparr>"

text \<open>
  The rest of the function, once the awaited response has settled.  In the success
  branch the four setters run before the template literal is evaluated, so a missing
  \<^verbatim>\<open>subject\<close> throws after them and lands in the \<^verbatim>\<open>catch\<close> block.
\<close>

definition analyzeContent_settle ::
  "analyze_data settled \<Rightarrow> home_state \<Rightarrow> home_state \<times> effect list" where
  "analyzeContent_settle r st =
     (case r of
        Rejected msg \<Rightarrow>
          (st\<lparr>loading := False\<rparr>, [Alert (''Error connecting to API: '' @ msg)])
      | Resolved data \<Rightarrow>
          if analyze_success data then
            (let st1 = st\<lparr>sessionId := session_id data,
                           subject := data_subject data,
                           suggestions :=
                             (case suggested_questions data of None \<Rightarrow> [] | Some qs \<Rightarrow> qs),
                           showSuggestions := True\<rparr>
             in case data_subject data of
                  None \<Rightarrow>
                    (st1\<lparr>loading := False\<rparr>,
                     [Alert (''Error connecting to API: '' @ type_error_message)])
                | Some s \<Rightarrow>
                    (st1\<lparr>chatHistory := [\<lparr>role = ''assistant'', content = welcome_message s\<rparr>],
                         loading := False\<rparr>, []))
          else
            (st\<lparr>loading := False\<rparr>,
             [Alert (''Error: '' @
                (case detail data of
                   None \<Rightarrow> ''Unknown error''
                 | Some d \<Rightarrow> if d = [] then ''Unknown error'' else d))]))"

definition analyzeContent ::
  "analyze_data settled \<Rightarrow> home_state \<Rightarrow> home_state \<times> effect list" where
  "analyzeContent r st =
     (if youtubeUrl st = [] then (st, [])
      else
        (let (st', es) = analyzeContent_settle r (analyzeContent_begin st)
         in (st',
             Fetch ''http://localhost:8000/api/analyze-content'' (AnalyzeBody (youtubeUrl st))
               # es)))"

subsection \<open>sendMessage\<close>

text \<open>\<^verbatim>\<open>messageText || message\<close>: the argument unless it is missing or empty.\<close>

definition textToSend :: "string option \<Rightarrow> home_state \<Rightarrow> string" where
  "textToSend messageText st =
     (case messageText of
        None \<Rightarrow> message st
      | Some t \<Rightarrow> if t = [] then message st else t)"

text \<open>The four setters that run before the request is sent.\<close>

definition sendMessage_begin :: "string option \<Rightarrow> home_state \<Rightarrow> home_state" where
  "sendMessage_begin messageText st =
     st\<lparr>chatHistory := chatHistory st @ [\<lparr>role = ''user'', content = textToSend messageText st\<rparr>],
        message := [],
        loading := True,
        showSuggestions := False\<rparr>"

definition sendMessage_settle ::
  "chat_data settled \<Rightarrow> home_state \<Rightarrow> home_state \<times> effect list" where
  "sendMessage_settle r st =
     (case r of
        Rejected msg \<Rightarrow> (st\<lparr>loading := False\<rparr>, [Alert (''Error: '' @ msg)])
      | Resolved data \<Rightarrow>
          if chat_success data then
            (st\<lparr>chatHistory := chatHistory st @ [\<lparr>role = ''assistant'', content = response data\<rparr>],
                loading := False\<rparr>, [])
          else (st\<lparr>loading := False\<rparr>, [Alert ''Error getting response'']))"

definition sendMessage ::
  "string option \<Rightarrow> chat_data settled \<Rightarrow> home_state \<Rightarrow> home_state \<times> effect list" where
  "sendMessage messageText r st =
     (if trim (textToSend messageText st) = [] \<or> sessionId st = [] then (st, [])
      else
        (let (st', es) = sendMessage_settle r (sendMessage_begin messageText st)
         in (st',
             Fetch ''http://localhost:8000/api/chat''
               (ChatBody (sessionId st) (textToSend messageText st) [])
               # es)))"

subsection \<open>refreshSuggestions\<close>

definition refreshSuggestions_begin :: "home_state \<Rightarrow> home_state" where
  "refreshSuggestions_begin st = st\<lparr>loading := True\<rparr>"

text \<open>The \<^verbatim>\<open>if (data.success)\<close> of this function has no \<^verbatim>\<open>else\<close> branch.\<close>

definition refreshSuggestions_settle ::
  "suggest_data settled \<Rightarrow> home_state \<Rightarrow> home_state \<times> effect list" where
  "refreshSuggestions_settle r st =
     (case r of
        Rejected msg \<Rightarrow>
          (st\<lparr>loading := False\<rparr>, [ConsoleError ''Error refreshing suggestions:'' msg])
      | Resolved data \<Rightarrow>
          if suggest_success data then
            (st\<lparr>suggestions := data_suggestions data, showSuggestions := True,
                loading := False\<rparr>, [])
          else (st\<lparr>loading := False\<rparr>, []))"

definition refreshSuggestions ::
  "suggest_data settled \<Rightarrow> home_state \<Rightarrow> home_state \<times> effect list" where
  "refreshSuggestions r st =
     (if sessionId st = [] then (st, [])
      else
        (let (st', es) = refreshSuggestions_settle r (refreshSuggestions_begin st)
         in (st',
             Fetch ''http://localhost:8000/api/generate-suggestions'' (SuggestBody (sessionId st))
               # es)))"

subsection \<open>clearChat and the inline handlers\<close>

text \<open>The first argument is the answer of \<^verbatim>\<open>confirm\<close>.\<close>

definition clearChat :: "bool \<Rightarrow> home_state \<Rightarrow> home_state \<times> effect list" where
  "clearChat confirmed st =
     (if confirmed then
        (st\<lparr>sessionId := [], subject := None, chatHistory := [], suggestions := [],
            youtubeUrl := [], showSuggestions := False\<rparr>,
         [Confirm ''Start a new learning session?''])
      else (st, [Confirm ''Start a new learning session?'']))"

text \<open>\<^verbatim>\<open>onClick={() => setShowSuggestions(!showSuggestions)}\<close>\<close>

definition toggleSuggestions :: "home_state \<Rightarrow> home_state" where
  "toggleSuggestions st = st\<lparr>showSuggestions := \<not> showSuggestions st\<rparr>"

subsection \<open>Runs of the page\<close>

text \<open>
  JavaScript runs one piece of code at a time, and a handler of the page writes state in
  two pieces: the statements before its \<^verbatim>\<open>await\<close>, which run when it is called, and
  the rest, which runs when the response has settled.  Between the two the page stays
  usable, so other handlers can be called and other responses can arrive.  The rest of a
  handler reads nothing but the response and, through \<^verbatim>\<open>prev => ...\<close>, the state of
  the moment, so of the requests in flight only their number matters.
\<close>

record page =
  cells :: home_state
  analyses :: nat
  chats :: nat
  refreshes :: nat

definition initial_page :: page where
  "initial_page = \<lparr>cells = initial_state, analyses = 0, chats = 0, refreshes = 0\<rparr>"

text \<open>
  What happens to the page, one piece at a time: the user types into an input
  (\<^verbatim>\<open>setYoutubeUrl\<close>, \<^verbatim>\<open>setMessage\<close>), calls a handler, answers the dialog of
  \<^verbatim>\<open>clearChat\<close> or toggles the suggestions, or a request in flight settles.
  \<open>CallSend\<close> is \<^verbatim>\<open>sendMessage()\<close>, the Send button and the Enter key;
  \<open>ClickSuggestion s\<close> is the button of suggestion \<open>s\<close>, which calls
  \<^verbatim>\<open>sendMessage(s)\<close> and then \<^verbatim>\<open>setShowSuggestions(false)\<close>.
\<close>

datatype event =
  TypeUrl string
| CallAnalyze
| ReplyAnalyze "analyze_data settled"
| TypeMessage string
| CallSend
| ClickSuggestion string
| ReplySend "chat_data settled"
| CallRefresh
| ReplyRefresh "suggest_data settled"
| ClearChat bool
| ToggleSuggestions

text \<open>
  A call whose guard fails sends nothing; a response can settle only when a request of
  its kind is in flight.
\<close>

fun step :: "event \<Rightarrow> page \<Rightarrow> page" where
  "step (TypeUrl u) p = p\<lparr>cells := (cells p)\<lparr>youtubeUrl := u\<rparr>\<rparr>"
| "step CallAnalyze p =
     (if youtubeUrl (cells p) = [] then p
      else p\<lparr>cells := analyzeContent_begin (cells p), analyses := Suc (analyses p)\<rparr>)"
| "step (ReplyAnalyze r) p =
     (if analyses p = 0 then p
      else p\<lparr>cells := fst (analyzeContent_settle r (cells p)), analyses := analyses p - 1\<rparr>)"
| "step (TypeMessage m) p = p\<lparr>cells := (cells p)\<lparr>message := m\<rparr>\<rparr>"
| "step CallSend p =
     (if trim (textToSend None (cells p)) = [] \<or> sessionId (cells p) = [] then p
      else p\<lparr>cells := sendMessage_begin None (cells p), chats := Suc (chats p)\<rparr>)"
| "step (ClickSuggestion s) p =
     (let q = (if trim (textToSend (Some s) (cells p)) = [] \<or> sessionId (cells p) = [] then p
               else p\<lparr>cells := sendMessage_begin (Some s) (cells p), chats := Suc (chats p)\<rparr>)
      in q\<lparr>cells := (cells q)\<lparr>showSuggestions := False\<rparr>\<rparr>)"
| "step (ReplySend r) p =
     (if chats p = 0 then p
      else p\<lparr>cells := fst (sendMessage_settle r (cells p)), chats := chats p - 1\<rparr>)"
| "step CallRefresh p =
     (if sessionId (cells p) = [] then p
      else p\<lparr>cells := refreshSuggestions_begin (cells p), refreshes := Suc (refreshes p)\<rparr>)"
| "step (ReplyRefresh r) p =
     (if refreshes p = 0 then p
      else p\<lparr>cells := fst (refreshSuggestions_settle r (cells p)),
             refreshes := refreshes p - 1\<rparr>)"
| "step (ClearChat confirmed) p = p\<lparr>cells := fst (clearChat confirmed (cells p))\<rparr>"
| "step ToggleSuggestions p = p\<lparr>cells := toggleSuggestions (cells p)\<rparr>"

fun run :: "event list \<Rightarrow> page \<Rightarrow> page" where
  "run [] p = p"
| "run (e # es) p = run es (step e p)"

text \<open>
  The three conditions that are to agree: no session id, no subject, no history.
\<close>

definition session_invariant :: "home_state \<Rightarrow> bool" where
  "session_invariant st =
     ((sessionId st = [] \<longleftrightarrow> subject st = None) \<and>
      (subject st = None \<longleftrightarrow> chatHistory st = []))"

text \<open>The state of a page that holds no session at all.\<close>

definition no_session :: "home_state \<Rightarrow> bool" where
  "no_session st =
     (sessionId st = [] \<and> subject st = None \<and> chatHistory st = [] \<and> suggestions st = [])"

text \<open>
  A response that keeps the backend's side of the interface: when it reports success it
  carries a non-empty session id and a subject.
\<close>

definition well_formed :: "analyze_data settled \<Rightarrow> bool" where
  "well_formed r =
     (case r of
        Rejected _ \<Rightarrow> True
      | Resolved data \<Rightarrow>
          \<not> analyze_success data \<or> (session_id data \<noteq> [] \<and> data_subject data \<noteq> None))"

text \<open>
  Three conditions on a run.  The page renders the analysis form under
  \<^verbatim>\<open>{!sessionId && (...)}\<close>, so \<^verbatim>\<open>analyzeContent\<close> is called only while there is no
  session id.  The responses to an analysis are well formed.  And no reset is confirmed
  while a chat request is in flight; this the page does not enforce, its New Session
  button is enabled while \<open>loading\<close> is true.  Nothing else is restricted: calls may
  overlap and responses may arrive in any order.
\<close>

fun allowed :: "page \<Rightarrow> event \<Rightarrow> bool" where
  "allowed p CallAnalyze = (sessionId (cells p) = [])"
| "allowed p (ReplyAnalyze r) = well_formed r"
| "allowed p (ClearChat confirmed) = (confirmed \<longrightarrow> chats p = 0)"
| "allowed p e = True"

fun admissible :: "page \<Rightarrow> event list \<Rightarrow> bool" where
  "admissible p [] = True"
| "admissible p (e # es) = (allowed p e \<and> admissible (step e p) es)"

text \<open>
  What the invariant needs besides itself to go through a run: a chat request is in
  flight only while there is a session id.
\<close>

definition consistent :: "page \<Rightarrow> bool" where
  "consistent p = (session_invariant (cells p) \<and> (0 < chats p \<longrightarrow> sessionId (cells p) \<noteq> []))"

text \<open>The two ways a request of the page fails: the promise rejects, or the body is not flagged as a success.\<close>

definition analyze_failed :: "analyze_data settled \<Rightarrow> bool" where
  "analyze_failed r = (case r of Rejected _ \<Rightarrow> True | Resolved data \<Rightarrow> \<not> analyze_success data)"

definition chat_failed :: "chat_data settled \<Rightarrow> bool" where
  "chat_failed r = (case r of Rejected _ \<Rightarrow> True | Resolved data \<Rightarrow> \<not> chat_success data)"

definition suggest_failed :: "suggest_data settled \<Rightarrow> bool" where
  "suggest_failed r = (case r of Rejected _ \<Rightarrow> True | Resolved data \<Rightarrow> \<not> suggest_success data)"

section \<open>The hotkey callback of the Electron main process\<close>

text \<open>
  The parsed body of the capture response.  The callback reads \<^verbatim>\<open>issue_detected\<close>
  only and forwards the whole object, so the other fields are the extension of the record.
\<close>

record capture_data =
  issue_detected :: bool

datatype 'a main_effect =
  ConsoleLog string
| MainFetch string request_body
| WebContentsSend string "'a capture_data_scheme"
| UnhandledRejection string

text \<open>
  The callback registered for \<^verbatim>\<open>CommandOrControl+K\<close>.  \<open>toBase64\<close> stands for
  \<^verbatim>\<open>img.toString('base64')\<close>, \<open>shot\<close> for the way \<^verbatim>\<open>screenshot()\<close> settles and
  \<open>resp\<close> for the way the request and the parsing of its body settle.  Neither the
  \<^verbatim>\<open>await\<close> nor the promise chain has a handler for a rejection.
\<close>

definition hotkey_callback ::
  "('img \<Rightarrow> string) \<Rightarrow> 'img settled \<Rightarrow> 'a capture_data_scheme settled \<Rightarrow> 'a main_effect list" where
  "hotkey_callback toBase64 shot resp =
     ConsoleLog ''Hotkey pressed!'' #
     (case shot of
        Rejected msg \<Rightarrow> [UnhandledRejection msg]
      | Resolved img \<Rightarrow>
          MainFetch ''http://localhost:8000/api/capture-and-analyze'' (CaptureBody (toBase64 img)) #
          (case resp of
             Rejected msg \<Rightarrow> [UnhandledRejection msg]
           | Resolved data \<Rightarrow>
               if issue_detected data then [WebContentsSend ''show-notification'' data] else []))"

definition notifications :: "'a main_effect list \<Rightarrow> 'a capture_data_scheme list" where
  "notifications es =
     concat (map (\<lambda>e. case e of
                         WebContentsSend channel data \<Rightarrow>
                           if channel = ''show-notification'' then [data] else []
                       | _ \<Rightarrow> []) es)"

section \<open>A worked session\<close>

text \<open>
  The analysis of \<^verbatim>\<open>https://x/watch?v=abc\<close> answered with session \<^verbatim>\<open>s1\<close>, a coding
  tutorial about loops, and one suggested question.
\<close>

definition scenario_subject :: subject_record where
  "scenario_subject =
     \<lparr>subject_subject = ''coding'', subject_topic = ''Loops'', subject_level = ''beginner'',
      subject_concepts = [''for'', ''while'']\<rparr>"

definition scenario_data :: analyze_data where
  "scenario_data =
     \<lparr>analyze_success = True, session_id = ''s1'', data_subject = Some scenario_subject,
      suggested_questions = Some [''What is a loop?''], detail = None\<rparr>"

definition rejected_data :: analyze_data where
  "rejected_data =
     \<lparr>analyze_success = False, session_id = [], data_subject = None,
      suggested_questions = None, detail = Some ''Invalid YouTube URL''\<rparr>"

definition refused_data :: suggest_data where
  "refused_data = \<lparr>suggest_success = False, data_suggestions = []\<rparr>"

definition answer_data :: chat_data where
  "answer_data = \<lparr>chat_success = True, response = ''Because the condition is checked again.''\<rparr>"

definition typed_url :: home_state where
  "typed_url = initial_state\<lparr>youtubeUrl := ''https://x/watch?v=abc''\<rparr>"

definition scenario_state :: home_state where
  "scenario_state =
     \<lparr>youtubeUrl = ''https://x/watch?v=abc'', sessionId = ''s1'',
      subject = Some scenario_subject, loading = False,
      chatHistory = [\<lparr>role = ''assistant'', content = welcome_message scenario_subject\<rparr>],
      message = [], suggestions = [''What is a loop?''], showSuggestions = True\<rparr>"

definition scenario_start :: "event list" where
  "scenario_start =
     [TypeUrl ''https://x/watch?v=abc'', CallAnalyze, ReplyAnalyze (Resolved scenario_data)]"

text \<open>
  A session with overlapping requests.  Enter is pressed twice in the url input; the
  first analysis succeeds and the second fails while a question is in flight; the answer
  arrives; a refresh is started and the session is reset before it fails; then the url is
  typed again and a new analysis succeeds.
\<close>

definition long_session :: "event list" where
  "long_session =
     [TypeUrl ''https://x/watch?v=abc'', CallAnalyze, CallAnalyze,
      ReplyAnalyze (Resolved scenario_data),
      TypeMessage ''why?'', CallSend,
      ReplyAnalyze (Rejected ''Failed to fetch''),
      ReplySend (Resolved answer_data),
      CallRefresh,
      ClearChat True,
      ReplyRefresh (Rejected ''Failed to fetch''),
      TypeUrl ''https://x/watch?v=abc'', CallAnalyze, ReplyAnalyze (Resolved scenario_data)]"

text \<open>A draft typed into the chat input, then a confirmed reset.\<close>

definition draft_session :: "event list" where
  "draft_session = scenario_start @ [TypeMessage ''how do loops end?'', ClearChat True]"

text \<open>
  Four runs that end with the three tests in disagreement: a second analysis that fails
  while a session is active, a success response with an empty session id, a success
  response without a subject, and a reset confirmed between a question and its answer.
\<close>

definition restart_fails :: "event list" where
  "restart_fails = scenario_start @ [CallAnalyze, ReplyAnalyze (Rejected ''Failed to fetch'')]"

definition empty_id_start :: "event list" where
  "empty_id_start =
     [TypeUrl ''https://x/watch?v=abc'', CallAnalyze,
      ReplyAnalyze (Resolved (scenario_data\<lparr>session_id := []\<rparr>))]"

definition no_subject_start :: "event list" where
  "no_subject_start =
     [TypeUrl ''https://x/watch?v=abc'', CallAnalyze,
      ReplyAnalyze (Resolved (scenario_data\<lparr>data_subject := None\<rparr>))]"

definition reset_in_flight :: "event list" where
  "reset_in_flight =
     scenario_start @
     [TypeMessage ''why?'', CallSend, ClearChat True, ReplySend (Resolved answer_data)]"

lemmas trim_eval =
  trim_def trimStart_def trimEnd_def strip_none strip_some match_len_def js_white_space_def

lemmas run_eval =
  initial_page_def initial_state_def scenario_start_def scenario_data_def
  analyzeContent_begin_def analyzeContent_settle_def

lemma scenario_state_reached: "cells (run scenario_start initial_page) = scenario_state"
  by (simp add: run_eval scenario_state_def)

lemma scenario_start_admissible: "admissible initial_page scenario_start"
  by (simp add: run_eval well_formed_def)

text \<open>
  A handler called while no request of its kind is in flight, whose response settles
  before anything else happens, is the handler run in one piece.
\<close>

lemma call_reply_analyze:
  "analyses p = 0 \<Longrightarrow>
     cells (step (ReplyAnalyze r) (step CallAnalyze p)) = fst (analyzeContent r (cells p))"
  by (simp add: analyzeContent_def split: prod.splits)

lemma call_reply_send:
  "chats p = 0 \<Longrightarrow>
     cells (step (ReplySend r) (step CallSend p)) = fst (sendMessage None r (cells p))"
  by (simp add: sendMessage_def split: prod.splits)

lemma click_reply_send:
  "chats p = 0 \<Longrightarrow>
     cells (step (ReplySend r) (step (ClickSuggestion s) p)) =
       (fst (sendMessage (Some s) r (cells p)))\<lparr>showSuggestions := False\<rparr>"
  by (auto simp add: sendMessage_def sendMessage_settle_def Let_def
      split: prod.splits settled.splits)

lemma call_reply_refresh:
  "refreshes p = 0 \<Longrightarrow>
     cells (step (ReplyRefresh r) (step CallRefresh p)) = fst (refreshSuggestions r (cells p))"
  by (simp add: refreshSuggestions_def split: prod.splits)

section \<open>Guards and the busy flag\<close>

text \<open>
  Claim C10.  A handler called with its guard failing returns at once: \<^verbatim>\<open>analyzeContent\<close>
  with an empty url, \<^verbatim>\<open>sendMessage\<close> with a text that trims to nothing or without a
  session id, and \<^verbatim>\<open>refreshSuggestions\<close> without a session id each leave the whole
  state as it was and produce no effect at all, so in particular no request.
\<close>

theorem precondition_violated_noop:
  "(youtubeUrl st = [] \<longrightarrow> analyzeContent ra st = (st, [])) \<and>
   (trim (textToSend messageText st) = [] \<or> sessionId st = [] \<longrightarrow>
      sendMessage messageText rc st = (st, [])) \<and>
   (sessionId st = [] \<longrightarrow> refreshSuggestions rs st = (st, []))"
  by (simp add: analyzeContent_def sendMessage_def refreshSuggestions_def)

text \<open>
  On the fresh page nothing passes its guard; in the worked session neither a blank
  suggestion nor the empty chat input is sent.
\<close>

theorem precondition_violated_noop_witness:
  "analyzeContent (Resolved scenario_data) initial_state = (initial_state, []) \<and>
   sendMessage (Some ''why?'') (Rejected ''offline'') initial_state = (initial_state, []) \<and>
   sendMessage (Some [CHR 0x20, CHR 0x09]) (Rejected ''offline'') scenario_state =
     (scenario_state, []) \<and>
   sendMessage None (Rejected ''offline'') scenario_state = (scenario_state, []) \<and>
   refreshSuggestions (Rejected ''offline'') initial_state = (initial_state, [])"
proof -
  have u: "youtubeUrl initial_state = []" and s: "sessionId initial_state = []"
    by (simp_all add: initial_state_def)
  have w: "trim (textToSend (Some [CHR 0x20, CHR 0x09]) scenario_state) = []"
    by (simp add: textToSend_def trim_eval)
  have e: "trim (textToSend None scenario_state) = []"
    by (simp add: textToSend_def scenario_state_def trim_eval)
  show ?thesis
    using
      precondition_violated_noop [of initial_state "Resolved scenario_data" "Some ''why?''"
        "Rejected ''offline''" "Rejected ''offline''"]
      precondition_violated_noop [of scenario_state "Resolved scenario_data"
        "Some [CHR 0x20, CHR 0x09]" "Rejected ''offline''" "Rejected ''offline''"]
      precondition_violated_noop [of scenario_state "Resolved scenario_data" None
        "Rejected ''offline''" "Rejected ''offline''"]
      u s w e
    by simp
qed

text \<open>
  Claim C6.  Each of \<^verbatim>\<open>analyzeContent\<close>, \<^verbatim>\<open>sendMessage\<close> and
  \<^verbatim>\<open>refreshSuggestions\<close>, called on its own with \<open>loading\<close> false, ends with
  \<open>loading\<close> false, however its request settles.
\<close>

theorem busy_cleared:
  assumes "\<not> loading st"
  shows "\<not> loading (fst (analyzeContent ra st)) \<and>
         \<not> loading (fst (sendMessage messageText rc st)) \<and>
         \<not> loading (fst (refreshSuggestions rs st))"
proof (intro conjI)
  show "\<not> loading (fst (analyzeContent ra st))"
    using assms
    by (auto simp add: analyzeContent_def analyzeContent_settle_def Let_def
        split: settled.splits option.splits)
  show "\<not> loading (fst (sendMessage messageText rc st))"
    using assms
    by (auto simp add: sendMessage_def sendMessage_settle_def split: settled.splits)
  show "\<not> loading (fst (refreshSuggestions rs st))"
    using assms
    by (auto simp add: refreshSuggestions_def refreshSuggestions_settle_def
        split: settled.splits)
qed

theorem busy_cleared_witness:
  "\<not> loading (fst (analyzeContent (Rejected ''offline'') scenario_state)) \<and>
   \<not> loading (fst (analyzeContent (Resolved scenario_data) scenario_state)) \<and>
   \<not> loading (fst (sendMessage (Some ''why?'') (Rejected ''offline'') scenario_state)) \<and>
   \<not> loading (fst (refreshSuggestions (Rejected ''offline'') scenario_state))"
proof -
  have still: "\<not> loading scenario_state"
    by (simp add: scenario_state_def)
  show ?thesis
    using busy_cleared [OF still, of "Rejected ''offline''" "Some ''why?''" "Rejected ''offline''"
        "Rejected ''offline''"]
      busy_cleared [OF still, of "Resolved scenario_data" "Some ''why?''" "Rejected ''offline''"
        "Rejected ''offline''"]
    by simp
qed

section \<open>Starting a session\<close>

text \<open>
  Claim C7.  When \<^verbatim>\<open>analyzeContent\<close> runs with a url and the response is a success
  that carries a subject, then afterwards \<open>sessionId\<close> and \<open>subject\<close> are the returned
  ones, \<open>suggestions\<close> are the returned questions (none when the field is absent),
  \<open>showSuggestions\<close> is true, and \<open>chatHistory\<close> is exactly one assistant turn, whose
  text contains the subject's \<^verbatim>\<open>subject\<close> and, after it, its \<^verbatim>\<open>topic\<close>.
\<close>

theorem startSession_success:
  assumes "youtubeUrl st \<noteq> []" and "analyze_success data" and "data_subject data = Some s"
  shows "sessionId (fst (analyzeContent (Resolved data) st)) = session_id data \<and>
         subject (fst (analyzeContent (Resolved data) st)) = Some s \<and>
         suggestions (fst (analyzeContent (Resolved data) st)) =
           (case suggested_questions data of None \<Rightarrow> [] | Some qs \<Rightarrow> qs) \<and>
         showSuggestions (fst (analyzeContent (Resolved data) st)) \<and>
         chatHistory (fst (analyzeContent (Resolved data) st)) =
           [\<lparr>role = ''assistant'', content = welcome_message s\<rparr>] \<and>
         (\<exists>a b c. welcome_message s = a @ subject_subject s @ b @ subject_topic s @ c)"
proof -
  have "welcome_message s =
          ''Great! I've analyzed this '' @ subject_subject s @
          ('' tutorial about '' @ [CHR 0x22]) @ subject_topic s @
          ([CHR 0x22] @
           ''. I'm ready to help you learn! Ask me anything or use the suggestions below. '' @
           rocket)"
    by (simp add: welcome_message_def)
  then have "\<exists>a b c. welcome_message s = a @ subject_subject s @ b @ subject_topic s @ c"
    by blast
  with assms show ?thesis
    by (simp add: analyzeContent_def analyzeContent_settle_def analyzeContent_begin_def)
qed

theorem startSession_success_witness:
  "sessionId (fst (analyzeContent (Resolved scenario_data) typed_url)) = ''s1'' \<and>
   subject (fst (analyzeContent (Resolved scenario_data) typed_url)) = Some scenario_subject \<and>
   suggestions (fst (analyzeContent (Resolved scenario_data) typed_url)) = [''What is a loop?''] \<and>
   showSuggestions (fst (analyzeContent (Resolved scenario_data) typed_url)) \<and>
   chatHistory (fst (analyzeContent (Resolved scenario_data) typed_url)) =
     [\<lparr>role = ''assistant'', content = welcome_message scenario_subject\<rparr>] \<and>
   (\<exists>a b c. welcome_message scenario_subject = a @ ''coding'' @ b @ ''Loops'' @ c)"
proof -
  have "youtubeUrl typed_url \<noteq> []" and "analyze_success scenario_data"
    and "data_subject scenario_data = Some scenario_subject"
    by (simp_all add: typed_url_def scenario_data_def)
  from startSession_success [OF this] show ?thesis
    by (simp add: scenario_data_def scenario_subject_def)
qed

text \<open>
  Claim C2.  When \<^verbatim>\<open>analyzeContent\<close> runs with a url on a page without a session id
  and the request fails, by a rejection or by a response not flagged as a success, then
  \<open>sessionId\<close> is still empty afterwards and no session has been created: none of the
  setters of the success branch has run, the state is the old one with \<open>chatHistory\<close>,
  \<open>suggestions\<close> and \<open>subject\<close> cleared by the statements before the request, and on a
  page that held no session this is the old state itself.  The failure is shown in an
  alert.
\<close>

theorem startSession_failure:
  assumes "youtubeUrl st \<noteq> []" and "analyze_failed r" and "sessionId st = []"
  shows "sessionId (fst (analyzeContent r st)) = [] \<and>
         fst (analyzeContent r st) =
           st\<lparr>loading := False, chatHistory := [], suggestions := [], subject := None\<rparr> \<and>
         no_session (fst (analyzeContent r st)) \<and>
         (no_session st \<longrightarrow> fst (analyzeContent r st) = st\<lparr>loading := False\<rparr>) \<and>
         alerts (snd (analyzeContent r st)) \<noteq> []"
  using assms
  by (auto simp add: analyzeContent_def analyzeContent_settle_def analyzeContent_begin_def
      analyze_failed_def no_session_def alerts_def split: settled.splits)

theorem startSession_failure_witness:
  "fst (analyzeContent (Rejected ''Failed to fetch'') typed_url) = typed_url \<and>
   fst (analyzeContent (Resolved rejected_data) typed_url) = typed_url \<and>
   sessionId (fst (analyzeContent (Resolved rejected_data) typed_url)) = [] \<and>
   alerts (snd (analyzeContent (Rejected ''Failed to fetch'') typed_url)) =
     [''Error connecting to API: Failed to fetch''] \<and>
   alerts (snd (analyzeContent (Resolved rejected_data) typed_url)) =
     [''Error: Invalid YouTube URL'']"
proof -
  have u: "youtubeUrl typed_url \<noteq> []" and s: "sessionId typed_url = []"
    and n: "no_session typed_url" and l: "typed_url\<lparr>loading := False\<rparr> = typed_url"
    by (simp_all add: typed_url_def initial_state_def no_session_def)
  have f1: "analyze_failed (Rejected ''Failed to fetch'')"
    and f2: "analyze_failed (Resolved rejected_data)"
    by (simp_all add: analyze_failed_def rejected_data_def)
  have a1: "alerts (snd (analyzeContent (Rejected ''Failed to fetch'') typed_url)) =
     [''Error connecting to API: Failed to fetch'']"
    using u by (simp add: analyzeContent_def analyzeContent_settle_def alerts_def)
  have a2: "alerts (snd (analyzeContent (Resolved rejected_data) typed_url)) =
     [''Error: Invalid YouTube URL'']"
    using u by (simp add: analyzeContent_def analyzeContent_settle_def alerts_def rejected_data_def)
  from startSession_failure [OF u f1 s]
  have "no_session typed_url \<longrightarrow>
          fst (analyzeContent (Rejected ''Failed to fetch'') typed_url) =
            typed_url\<lparr>loading := False\<rparr>"
    by blast
  with n l have e1: "fst (analyzeContent (Rejected ''Failed to fetch'') typed_url) = typed_url"
    by simp
  from startSession_failure [OF u f2 s]
  have "sessionId (fst (analyzeContent (Resolved rejected_data) typed_url)) = [] \<and>
        (no_session typed_url \<longrightarrow>
          fst (analyzeContent (Resolved rejected_data) typed_url) =
            typed_url\<lparr>loading := False\<rparr>)"
    by blast
  with n l s have e2: "fst (analyzeContent (Resolved rejected_data) typed_url) = typed_url"
    and e3: "sessionId (fst (analyzeContent (Resolved rejected_data) typed_url)) = []"
    by simp_all
  from e1 e2 e3 a1 a2 show ?thesis
    by blast
qed

section \<open>Sending a message\<close>

text \<open>
  Claim C3.  When \<^verbatim>\<open>sendMessage\<close> passes its guard (the text does not trim to nothing
  and there is a session id), the user turn with that text is appended to \<open>chatHistory\<close>
  by the statements that run before the request settles, and the rest of the function
  continues from that state.  If the request fails, \<open>chatHistory\<close> ends up as the old
  history followed by the user turn only, with no assistant turn, and one alert is
  shown.
\<close>

theorem sendMessage_optimistic_append:
  assumes "trim (textToSend messageText st) \<noteq> []" and "sessionId st \<noteq> []"
  shows "chatHistory (sendMessage_begin messageText st) =
           chatHistory st @ [\<lparr>role = ''user'', content = textToSend messageText st\<rparr>] \<and>
         fst (sendMessage messageText r st) =
           fst (sendMessage_settle r (sendMessage_begin messageText st)) \<and>
         (chat_failed r \<longrightarrow>
            chatHistory (fst (sendMessage messageText r st)) =
              chatHistory st @ [\<lparr>role = ''user'', content = textToSend messageText st\<rparr>] \<and>
            alerts (snd (sendMessage messageText r st)) =
              [case r of
                 Rejected msg \<Rightarrow> ''Error: '' @ msg
               | Resolved data \<Rightarrow> ''Error getting response''])"
  using assms
  by (auto simp add: sendMessage_def sendMessage_settle_def sendMessage_begin_def
      chat_failed_def alerts_def split: settled.splits prod.splits)

theorem sendMessage_optimistic_append_witness:
  "chatHistory (sendMessage_begin (Some ''why?'') scenario_state) =
     chatHistory scenario_state @ [\<lparr>role = ''user'', content = ''why?''\<rparr>] \<and>
   chatHistory (fst (sendMessage (Some ''why?'')
       (Resolved \<lparr>chat_success = False, response = []\<rparr>) scenario_state)) =
     chatHistory scenario_state @ [\<lparr>role = ''user'', content = ''why?''\<rparr>] \<and>
   alerts (snd (sendMessage (Some ''why?'')
       (Resolved \<lparr>chat_success = False, response = []\<rparr>) scenario_state)) =
     [''Error getting response''] \<and>
   alerts (snd (sendMessage (Some ''why?'') (Rejected ''Failed to fetch'') scenario_state)) =
     [''Error: Failed to fetch'']"
proof -
  have t: "trim (textToSend (Some ''why?'') scenario_state) \<noteq> []"
    by (simp add: textToSend_def trim_eval)
  have s: "sessionId scenario_state \<noteq> []"
    by (simp add: scenario_state_def)
  have f: "chat_failed (Resolved \<lparr>chat_success = False, response = []\<rparr>)"
      "chat_failed (Rejected ''Failed to fetch'')"
    by (simp_all add: chat_failed_def)
  note refused =
    sendMessage_optimistic_append [OF t s, of "Resolved \<lparr>chat_success = False, response = []\<rparr>"]
  note offline = sendMessage_optimistic_append [OF t s, of "Rejected ''Failed to fetch''"]
  from refused [THEN conjunct1]
    refused [THEN conjunct2, THEN conjunct2, THEN mp, OF f(1)]
    offline [THEN conjunct2, THEN conjunct2, THEN mp, OF f(2)]
  show ?thesis
    by (simp add: textToSend_def)
qed

text \<open>
  Claim C9.  Whatever the argument, the state and the outcome, \<^verbatim>\<open>sendMessage\<close> sends
  at most one request, the chat request for the session id and the text, and the
  \<^verbatim>\<open>screenshot\<close> field of every request it sends is the empty string.
\<close>

theorem chat_request_screenshot_empty:
  "requests (snd (sendMessage messageText r st)) =
     (if trim (textToSend messageText st) = [] \<or> sessionId st = [] then []
      else [(''http://localhost:8000/api/chat'',
             ChatBody (sessionId st) (textToSend messageText st) [])]) \<and>
   (\<forall>q \<in> set (requests (snd (sendMessage messageText r st))). req_screenshot (snd q) = [])"
  by (auto simp add: sendMessage_def sendMessage_settle_def requests_def split: settled.splits)

theorem chat_request_screenshot_empty_witness:
  "requests (snd (sendMessage (Some ''why?'') (Rejected ''offline'') scenario_state)) =
     [(''http://localhost:8000/api/chat'', ChatBody ''s1'' ''why?'' [])] \<and>
   req_screenshot (snd (hd (requests
     (snd (sendMessage (Some ''why?'') (Rejected ''offline'') scenario_state))))) = []"
proof -
  have t: "trim (textToSend (Some ''why?'') scenario_state) = ''why?''"
    by (simp add: textToSend_def trim_eval)
  have s: "sessionId scenario_state = ''s1''"
    by (simp add: scenario_state_def)
  show ?thesis
    using chat_request_screenshot_empty [of "Some ''why?''" "Rejected ''offline''" scenario_state] t s
    by (simp add: textToSend_def)
qed

section \<open>Refreshing the suggestions\<close>

text \<open>
  Claim C5, as the code has it.  When \<^verbatim>\<open>refreshSuggestions\<close> runs with a session id
  and the request fails, the state is the old one with \<open>loading\<close> false, so
  \<open>suggestions\<close>, \<open>chatHistory\<close> and \<open>sessionId\<close> are untouched, and no alert is shown.
  A rejection is written to the console with \<^verbatim>\<open>console.error\<close>; a response that is
  not flagged as a success leaves no trace at all.
\<close>

theorem refreshSuggestions_failure:
  assumes "sessionId st \<noteq> []" and "suggest_failed r"
  shows "fst (refreshSuggestions r st) = st\<lparr>loading := False\<rparr> \<and>
         suggestions (fst (refreshSuggestions r st)) = suggestions st \<and>
         chatHistory (fst (refreshSuggestions r st)) = chatHistory st \<and>
         sessionId (fst (refreshSuggestions r st)) = sessionId st \<and>
         alerts (snd (refreshSuggestions r st)) = [] \<and>
         console_errors (snd (refreshSuggestions r st)) =
           (case r of
              Rejected msg \<Rightarrow> [(''Error refreshing suggestions:'', msg)]
            | Resolved data \<Rightarrow> [])"
  using assms
  by (auto simp add: refreshSuggestions_def refreshSuggestions_settle_def
      refreshSuggestions_begin_def suggest_failed_def alerts_def console_errors_def
      split: settled.splits)

theorem refreshSuggestions_failure_witness:
  "suggestions (fst (refreshSuggestions (Rejected ''Failed to fetch'') scenario_state)) =
     [''What is a loop?''] \<and>
   fst (refreshSuggestions (Rejected ''Failed to fetch'') scenario_state) = scenario_state \<and>
   alerts (snd (refreshSuggestions (Rejected ''Failed to fetch'') scenario_state)) = [] \<and>
   console_errors (snd (refreshSuggestions (Rejected ''Failed to fetch'') scenario_state)) =
     [(''Error refreshing suggestions:'', ''Failed to fetch'')]"
proof -
  have s: "sessionId scenario_state \<noteq> []"
    and l: "scenario_state\<lparr>loading := False\<rparr> = scenario_state"
    and g: "suggestions scenario_state = [''What is a loop?'']"
    by (simp_all add: scenario_state_def)
  have f: "suggest_failed (Rejected ''Failed to fetch'')"
    by (simp add: suggest_failed_def)
  from refreshSuggestions_failure [OF s f] l g show ?thesis
    by simp
qed

text \<open>
  In the worked session a refresh answered with \<^verbatim>\<open>{success: false}\<close> is a failed
  request with a session id, and the request is all the handler does: nothing is written
  to the console.
\<close>

theorem refreshSuggestions_rejection_unlogged:
  "suggest_failed (Resolved refused_data) \<and>
   sessionId scenario_state \<noteq> [] \<and>
   snd (refreshSuggestions (Resolved refused_data) scenario_state) =
     [Fetch ''http://localhost:8000/api/generate-suggestions'' (SuggestBody ''s1'')] \<and>
   console_errors (snd (refreshSuggestions (Resolved refused_data) scenario_state)) = []"
  by (simp add: suggest_failed_def refused_data_def scenario_state_def refreshSuggestions_def
      refreshSuggestions_settle_def console_errors_def)

section \<open>Resetting the session\<close>

text \<open>
  Claim C4, as the code has it.  A confirmed \<^verbatim>\<open>clearChat\<close> empties \<open>sessionId\<close>,
  \<open>subject\<close>, \<open>chatHistory\<close>, \<open>suggestions\<close> and the url input \<open>youtubeUrl\<close> and sets
  \<open>showSuggestions\<close> to false; the chat input \<open>message\<close> and \<open>loading\<close> keep their
  values.  A declined \<^verbatim>\<open>clearChat\<close> changes nothing.
\<close>

theorem clearChat_effect:
  "fst (clearChat True st) =
     st\<lparr>sessionId := [], subject := None, chatHistory := [], suggestions := [],
        youtubeUrl := [], showSuggestions := False\<rparr> \<and>
   message (fst (clearChat True st)) = message st \<and>
   loading (fst (clearChat True st)) = loading st \<and>
   fst (clearChat False st) = st"
  by (simp add: clearChat_def)

text \<open>
  A question typed into the chat input but not sent is still there after a confirmed
  reset: input text that is pending is not cleared.
\<close>

theorem clearChat_keeps_draft:
  "admissible initial_page draft_session \<and>
   message (cells (run draft_session initial_page)) = ''how do loops end?'' \<and>
   message (cells (run draft_session initial_page)) \<noteq> []"
  by (simp add: draft_session_def run_eval well_formed_def clearChat_def)

section \<open>The session invariant\<close>

lemma step_consistent:
  assumes "consistent p" and "allowed p e"
  shows "consistent (step e p)"
proof (cases e)
  case CallAnalyze
  with assms show ?thesis
    by (auto simp add: consistent_def session_invariant_def analyzeContent_begin_def)
next
  case (ReplyAnalyze r)
  with assms show ?thesis
    by (auto simp add: consistent_def session_invariant_def well_formed_def
        analyzeContent_settle_def split: settled.splits)
next
  case CallSend
  with assms show ?thesis
    by (auto simp add: consistent_def session_invariant_def sendMessage_begin_def)
next
  case (ClickSuggestion s)
  with assms show ?thesis
    by (auto simp add: consistent_def session_invariant_def sendMessage_begin_def Let_def)
next
  case (ReplySend r)
  with assms show ?thesis
    by (auto simp add: consistent_def session_invariant_def sendMessage_settle_def
        split: settled.splits)
next
  case CallRefresh
  with assms show ?thesis
    by (auto simp add: consistent_def session_invariant_def refreshSuggestions_begin_def)
next
  case (ReplyRefresh r)
  with assms show ?thesis
    by (auto simp add: consistent_def session_invariant_def refreshSuggestions_settle_def
        split: settled.splits)
next
  case (ClearChat confirmed)
  with assms show ?thesis
    by (auto simp add: consistent_def session_invariant_def clearChat_def)
qed (use assms in \<open>auto simp add: consistent_def session_invariant_def toggleSuggestions_def\<close>)

lemma run_consistent: "consistent p \<Longrightarrow> admissible p es \<Longrightarrow> consistent (run es p)"
  by (induction es arbitrary: p) (simp_all add: step_consistent)

lemma admissible_take: "admissible p es \<Longrightarrow> admissible p (take n es)"
proof (induction es arbitrary: p n)
  case Nil
  then show ?case by simp
next
  case (Cons e es)
  then show ?case by (cases n) simp_all
qed

text \<open>
  Claim C1, as the code has it.  Take any run of the fresh page, with calls and responses
  interleaved in any way, in which \<^verbatim>\<open>analyzeContent\<close> is called only while there is no
  session id, as the page allows, every success response to it carries a non-empty
  session id and a subject, and no reset is confirmed while a chat request is in flight.
  Then after each step of the run, that is after every prefix of it and so whenever an
  operation has completed, \<open>sessionId\<close> is empty exactly when \<open>subject\<close> is null and
  exactly when \<open>chatHistory\<close> is empty.
\<close>

theorem session_invariant_admissible:
  assumes "admissible initial_page es"
  shows "session_invariant (cells (run (take n es) initial_page))"
proof -
  have "consistent initial_page"
    by (simp add: consistent_def session_invariant_def initial_page_def initial_state_def)
  moreover have "admissible initial_page (take n es)"
    using assms by (rule admissible_take)
  ultimately have "consistent (run (take n es) initial_page)"
    by (rule run_consistent)
  then show ?thesis
    by (simp add: consistent_def)
qed

lemmas long_eval =
  long_session_def run_eval answer_data_def well_formed_def textToSend_def trim_eval
  sendMessage_begin_def sendMessage_settle_def refreshSuggestions_begin_def
  refreshSuggestions_settle_def clearChat_def

lemma long_session_admissible: "admissible initial_page long_session"
  by (simp add: long_eval)

text \<open>
  In the overlapping session the second analysis is called while the first is in flight,
  the reset is confirmed while a refresh, but no chat request, is in flight, and the
  session ids after four, ten and all fourteen steps are \<^verbatim>\<open>s1\<close>, none and \<^verbatim>\<open>s1\<close>.
\<close>

theorem session_invariant_admissible_witness:
  "admissible initial_page long_session \<and>
   session_invariant (cells (run (take 3 long_session) initial_page)) \<and>
   session_invariant (cells (run (take 6 long_session) initial_page)) \<and>
   session_invariant (cells (run (take 10 long_session) initial_page)) \<and>
   session_invariant (cells (run (take 14 long_session) initial_page)) \<and>
   analyses (run (take 3 long_session) initial_page) = 2 \<and>
   sessionId (cells (run (take 4 long_session) initial_page)) = ''s1'' \<and>
   chats (run (take 6 long_session) initial_page) = 1 \<and>
   length (chatHistory (cells (run (take 8 long_session) initial_page))) = 3 \<and>
   refreshes (run (take 10 long_session) initial_page) = 1 \<and>
   sessionId (cells (run (take 10 long_session) initial_page)) = [] \<and>
   sessionId (cells (run (take 14 long_session) initial_page)) = ''s1''"
proof -
  have "analyses (run (take 3 long_session) initial_page) = 2"
    and "sessionId (cells (run (take 4 long_session) initial_page)) = ''s1''"
    and "chats (run (take 6 long_session) initial_page) = 1"
    and "length (chatHistory (cells (run (take 8 long_session) initial_page))) = 3"
    and "refreshes (run (take 10 long_session) initial_page) = 1"
    and "sessionId (cells (run (take 10 long_session) initial_page)) = []"
    and "sessionId (cells (run (take 14 long_session) initial_page)) = ''s1''"
    by (simp_all add: long_eval)
  then show ?thesis
    using long_session_admissible session_invariant_admissible [OF long_session_admissible]
    by simp
qed

text \<open>
  Without those conditions the three tests come apart.  A second analysis that fails
  while a session is active clears \<open>subject\<close> and \<open>chatHistory\<close> and keeps \<open>sessionId\<close>;
  a success response with an empty session id fills \<open>subject\<close> and \<open>chatHistory\<close>
  beside an empty \<open>sessionId\<close>; a success response without a subject sets \<open>sessionId\<close>
  and nothing else; and the answer to a question that arrives after a reset is appended
  to the emptied \<open>chatHistory\<close> beside an empty \<open>sessionId\<close> and a null \<open>subject\<close>.
\<close>

theorem session_invariant_broken:
  "\<not> session_invariant (cells (run restart_fails initial_page)) \<and>
   \<not> session_invariant (cells (run empty_id_start initial_page)) \<and>
   \<not> session_invariant (cells (run no_subject_start initial_page)) \<and>
   \<not> session_invariant (cells (run reset_in_flight initial_page))"
  by (simp add: restart_fails_def empty_id_start_def no_subject_start_def reset_in_flight_def
      run_eval session_invariant_def answer_data_def textToSend_def trim_eval
      sendMessage_begin_def sendMessage_settle_def clearChat_def)

section \<open>The capture notification\<close>

text \<open>
  Claim C8.  One press of the hotkey sends the \<^verbatim>\<open>show-notification\<close> event exactly
  once, with the whole response body as its payload, when the screenshot is taken, the
  request resolves with a body and the body's \<^verbatim>\<open>issue_detected\<close> is true; in every
  other case (no issue detected, no screenshot, no response) it sends no such event.
\<close>

theorem hotkey_notification:
  "notifications (hotkey_callback toBase64 shot resp) =
     (case shot of
        Rejected _ \<Rightarrow> []
      | Resolved img \<Rightarrow>
          (case resp of
             Rejected _ \<Rightarrow> []
           | Resolved data \<Rightarrow> if issue_detected data then [data] else []))"
  by (simp add: hotkey_callback_def notifications_def split: settled.splits)

theorem hotkey_notification_witness:
  "notifications (hotkey_callback (\<lambda>img. img) (Resolved ''aGk='')
      (Resolved \<lparr>issue_detected = True, \<dots> = ''stuck on a syntax error''\<rparr>)) =
     [\<lparr>issue_detected = True, \<dots> = ''stuck on a syntax error''\<rparr>] \<and>
   notifications (hotkey_callback (\<lambda>img. img) (Resolved ''aGk='')
      (Resolved \<lparr>issue_detected = False, \<dots> = ''all fine''\<rparr>)) = [] \<and>
   notifications (hotkey_callback (\<lambda>img. img) (Rejected ''no display'')
      (Resolved \<lparr>issue_detected = True, \<dots> = ''stuck on a syntax error''\<rparr>)) = [] \<and>
   notifications (hotkey_callback (\<lambda>img. img) (Resolved ''aGk='')
      (Rejected ''offline'' :: string capture_data_scheme settled)) = []"
  using hotkey_notification [of "\<lambda>img. img" "Resolved ''aGk=''"
      "Resolved \<lparr>issue_detected = True, \<dots> = ''stuck on a syntax error''\<rparr>"]
    hotkey_notification [of "\<lambda>img. img" "Resolved ''aGk=''"
      "Resolved \<lparr>issue_detected = False, \<dots> = ''all fine''\<rparr>"]
    hotkey_notification [of "\<lambda>img. img" "Rejected ''no display''"
      "Resolved \<lparr>issue_detected = True, \<dots> = ''stuck on a syntax error''\<rparr>"]
    hotkey_notification [of "\<lambda>img. img" "Resolved ''aGk=''"
      "Rejected ''offline'' :: string capture_data_scheme settled"]
  by simp

end
